theory Spec2Isabelle
  imports Complex_Main "HOL-Library.Sublist"
begin

section \<open>Python values, exceptions and string helpers\<close>

text \<open>
  The command-line layer of \<^verbatim>\<open>sdserver/cli.py\<close>. Python strings are modelled as
  \<open>string\<close> (lists of characters with code points below 256). Exceptions are values:
  a function that can raise returns \<open>exc + 'a\<close>, with \<open>Inl\<close> for the raised exception.
\<close>

datatype exc =
    SDServerException string
  | ClickException string
  | BadArgumentUsage string
  | KeyboardInterrupt
  | RuntimeError string
  | NameError string
  | TypeError string
  | AssertionError string
  | OtherException string string
  | OtherBaseException string string

text \<open>\<^verbatim>\<open>type(e).__name__\<close>. The last two constructors carry their class name.\<close>

fun class_name :: "exc \<Rightarrow> string" where
  "class_name (SDServerException m) = ''SDServerException''"
| "class_name (ClickException m) = ''ClickException''"
| "class_name (BadArgumentUsage m) = ''BadArgumentUsage''"
| "class_name KeyboardInterrupt = ''KeyboardInterrupt''"
| "class_name (RuntimeError m) = ''RuntimeError''"
| "class_name (NameError m) = ''NameError''"
| "class_name (TypeError m) = ''TypeError''"
| "class_name (AssertionError m) = ''AssertionError''"
| "class_name (OtherException c m) = c"
| "class_name (OtherBaseException c m) = c"

text \<open>
  \<^verbatim>\<open>isinstance(e, Exception)\<close>: in Python 3 \<^verbatim>\<open>KeyboardInterrupt\<close> derives from
  \<^verbatim>\<open>BaseException\<close> directly, as \<^verbatim>\<open>SystemExit\<close> and \<^verbatim>\<open>GeneratorExit\<close> do
  (\<open>OtherBaseException\<close>); every other class here derives from \<^verbatim>\<open>Exception\<close>.
\<close>

fun is_Exception :: "exc \<Rightarrow> bool" where
  "is_Exception KeyboardInterrupt = False"
| "is_Exception (OtherBaseException c m) = False"
| "is_Exception e = True"

text \<open>
  The values a device specification can take at run time: \<^verbatim>\<open>None\<close>, an integer, or a
  tuple. Tuple elements are kept as the text an f-string renders for them.
\<close>

datatype py_value = PyNone | PyInt int | PyTuple "string list"

text \<open>\<^verbatim>\<open>len(x)\<close> raises \<^verbatim>\<open>TypeError\<close> on an integer and on \<^verbatim>\<open>None\<close>.\<close>

fun py_len :: "py_value \<Rightarrow> exc + nat" where
  "py_len (PyTuple xs) = Inr (length xs)"
| "py_len (PyInt n) = Inl (TypeError ''object of type 'int' has no len()'')"
| "py_len PyNone = Inl (TypeError ''object of type 'NoneType' has no len()'')"

text \<open>Truth value of \<^verbatim>\<open>if x:\<close>.\<close>

fun py_truthy :: "py_value \<Rightarrow> bool" where
  "py_truthy PyNone = False"
| "py_truthy (PyInt n) = (n \<noteq> 0)"
| "py_truthy (PyTuple xs) = (xs \<noteq> [])"

text \<open>
  The elements of a tuple. On the other values the code never gets as far as reading
  elements, since \<open>py_len\<close> has raised before.
\<close>

fun py_items :: "py_value \<Rightarrow> string list" where
  "py_items (PyTuple xs) = xs"
| "py_items v = []"

text \<open>Keyword attributes of an option declaration: \<^verbatim>\<open>None\<close>, an integer or a string.\<close>

datatype attr_value = ANone | AInt int | AStr string

text \<open>\<^verbatim>\<open>str(n)\<close> for integers, as an f-string renders them.\<close>

fun nat_digits :: "nat \<Rightarrow> string" where
  "nat_digits n =
     (if n < 10 then [''0123456789'' ! n]
      else nat_digits (n div 10) @ [''0123456789'' ! (n mod 10)])"

definition py_str_int :: "int \<Rightarrow> string" where
  "py_str_int i = (if i < 0 then ''-'' @ nat_digits (nat (- i)) else nat_digits (nat i))"

fun py_str_attr :: "attr_value \<Rightarrow> string" where
  "py_str_attr ANone = ''None''"
| "py_str_attr (AInt i) = py_str_int i"
| "py_str_attr (AStr s) = s"

text \<open>
  \<^verbatim>\<open>s.split(sep)\<close> for a one-character separator keeps empty parts;
  \<^verbatim>\<open>s.split()\<close> splits on runs of whitespace and yields no empty part.
  \<open>split_on\<close> scans the string once, \<open>cur\<close> being the part read so far.
\<close>

fun split_on :: "(char \<Rightarrow> bool) \<Rightarrow> string \<Rightarrow> string \<Rightarrow> string list" where
  "split_on sep cur [] = [cur]"
| "split_on sep cur (c # cs) =
     (if sep c then cur # split_on sep [] cs else split_on sep (cur @ [c]) cs)"

definition py_split_comma :: "string \<Rightarrow> string list" where
  "py_split_comma s = split_on (\<lambda>c. c = CHR '','') [] s"

text \<open>\<^verbatim>\<open>str.isspace\<close> on code points below 256.\<close>

definition is_space :: "char \<Rightarrow> bool" where
  "is_space c = ((of_char c :: nat) \<in> set [9, 10, 11, 12, 13, 28, 29, 30, 31, 32, 133, 160])"

definition py_split :: "string \<Rightarrow> string list" where
  "py_split s = filter (\<lambda>t. t \<noteq> []) (split_on is_space [] s)"

text \<open>\<^verbatim>\<open>sep.join(xs)\<close>.\<close>

fun py_join :: "string \<Rightarrow> string list \<Rightarrow> string" where
  "py_join sep [] = []"
| "py_join sep [x] = x"
| "py_join sep (x # y # ys) = x @ sep @ py_join sep (y # ys)"

section \<open>NargsOptions\<close>

text \<open>
  \<^verbatim>\<open>NargsOptions.__init__\<close>: \<^verbatim>\<open>nargs\<close> is popped from the keyword attributes with
  default \<open>-1\<close>; any other value raises. The parent constructor (click-option-group) is
  the parameter \<open>super_init\<close>; it receives the attributes without \<^verbatim>\<open>nargs\<close> (and the
  positional arguments, which are passed on as they are). The two attributes
  \<^verbatim>\<open>_prev_parser_process\<close> and \<^verbatim>\<open>_nargs_parser\<close> start as \<^verbatim>\<open>None\<close>: not set.
\<close>

record 'b nargs_options =
  base :: 'b
  prev_parser_process_set :: bool
  nargs_parser_set :: bool

definition NargsOptions_init ::
  "((string \<rightharpoonup> attr_value) \<Rightarrow> exc + 'b) \<Rightarrow> (string \<rightharpoonup> attr_value) \<Rightarrow> exc + 'b nargs_options" where
  "NargsOptions_init super_init attrs =
     (let nargs = (case attrs ''nargs'' of None \<Rightarrow> AInt (- 1) | Some v \<Rightarrow> v);
          attrs' = attrs(''nargs'' := None)
      in if nargs \<noteq> AInt (- 1)
         then Inl (SDServerException ([CHR 0x27] @ ''nargs' is set, and must be -1 instead of '' @ py_str_attr nargs))
         else (case super_init attrs' of
                 Inl e \<Rightarrow> Inl e
               | Inr b \<Rightarrow> Inr \<lparr>base = b, prev_parser_process_set = False, nargs_parser_set = False\<rparr>))"

text \<open>
  The hook \<^verbatim>\<open>_parser\<close> installed by \<^verbatim>\<open>add_to_parser\<close>. \<open>for_prefixes\<close> is the inner
  \<^verbatim>\<open>for\<close> loop over the option's prefixes, \<open>nargs_while\<close> the \<^verbatim>\<open>while\<close> loop over
  \<^verbatim>\<open>state.rargs\<close>; the result is the tuple handed to the previous \<^verbatim>\<open>process\<close> and the
  tokens left in \<^verbatim>\<open>state.rargs\<close>. \<open>pfxs\<close> are the prefixes of the option's parser, which
  \<^verbatim>\<open>add_to_parser\<close> stores together with the hook, so both assertions hold.
\<close>

fun for_prefixes :: "string list \<Rightarrow> string \<Rightarrow> bool \<Rightarrow> bool" where
  "for_prefixes [] tok done = done"
| "for_prefixes (p # ps) tok done = for_prefixes ps tok (if prefix p tok then True else done)"

function nargs_while :: "string list \<Rightarrow> bool \<Rightarrow> string list \<Rightarrow> string list \<Rightarrow> string list \<times> string list" where
  "nargs_while pfxs done value rargs =
     (if rargs \<noteq> [] \<and> \<not> done then
        (let done' = for_prefixes pfxs (hd rargs) done
         in if \<not> done' then nargs_while pfxs done' (value @ [hd rargs]) (tl rargs)
            else nargs_while pfxs done' value rargs)
      else (value, rargs))"
  by pat_completeness auto
termination
  by (relation "measure (\<lambda>(pfxs, done, value, rargs). 2 * length rargs + (if done then 0 else 1))") auto

definition nargs_parser :: "string list \<Rightarrow> string \<Rightarrow> string list \<Rightarrow> string list \<times> string list" where
  "nargs_parser pfxs value rargs = nargs_while pfxs False [value] rargs"

section \<open>parse_device_callback\<close>

text \<open>
  \<^verbatim>\<open>gpu_count\<close> is imported from \<^verbatim>\<open>sdserver.utils\<close>; the result of the call
  \<^verbatim>\<open>gpu_count()\<close> is the first parameter, and \<open>params\<close> is the text the f-string renders
  for the click parameter.
  The value is \<^verbatim>\<open>None\<close>, a tuple, or not a tuple at all (the second equation, where the
  \<^verbatim>\<open>isinstance\<close> check raises). \<open>parse_tokens\<close> is the \<^verbatim>\<open>for v in value\<close> loop with
  its accumulator \<^verbatim>\<open>parsed\<close>.
\<close>

fun parse_tokens :: "string list \<Rightarrow> string list \<Rightarrow> string list" where
  "parse_tokens parsed [] = parsed"
| "parse_tokens parsed (v # vs) =
     (if v = '','' then parse_tokens parsed vs
      else if CHR '','' \<in> set v then parse_tokens (parsed @ py_split_comma v) vs
      else parse_tokens (parsed @ py_split v) vs)"

fun parse_device_callback :: "py_value \<Rightarrow> string \<Rightarrow> py_value \<Rightarrow> exc + py_value" where
  "parse_device_callback gpu_count params PyNone = Inr PyNone"
| "parse_device_callback gpu_count params (PyInt n) =
     Inl (RuntimeError (params @ '' only accept multiple values.''))"
| "parse_device_callback gpu_count params (PyTuple value) =
     (if length value = 1 \<and> value ! 0 = ''all'' then Inr gpu_count
      else Inr (PyTuple (filter (\<lambda>x. x \<noteq> []) (parse_tokens [] value))))"

section \<open>The process state seen by a command\<close>

text \<open>
  What a handler can read and change: the clock read by \<^verbatim>\<open>time.time_ns()\<close>, the global
  quiet and debug flags, and the calls made to the collaborators, in order: lines echoed
  (text and colour), warnings logged, events handed to \<^verbatim>\<open>analytics.track\<close>,
  configurations handed to \<^verbatim>\<open>analytics.track_start_init\<close>, and the environments given
  to \<^verbatim>\<open>server.start\<close>.
\<close>

record cli_event =
  cmd_group :: string
  cmd_name :: string
  duration_in_ms :: "rat option"
  error_type :: "string option"
  return_code :: "int option"

record sd_config =
  model_name :: string
  start_name :: string
  name_type :: string
  requires_gpu :: bool
  timeout :: int
  model_ids :: string
  default_id :: string

text \<open>The object a name is bound to: a model configuration, or anything else.\<close>

datatype binding = Config sd_config | Object

record world =
  now :: int
  quiet_mode :: bool
  debug_mode :: bool
  logging_configured :: nat
  logged :: "string list"
  echoed :: "(string \<times> string option) list"
  tracked :: "cli_event list"
  start_inits :: "binding list"
  launched :: "(string \<rightharpoonup> string) list"

text \<open>
  \<^verbatim>\<open>_echo(text, fg)\<close> prints through \<^verbatim>\<open>click.secho\<close>, with the colour dropped in debug
  mode.
\<close>

definition echo :: "string \<Rightarrow> string \<Rightarrow> world \<Rightarrow> world" where
  "echo text fg w = w\<lparr>echoed := echoed w @ [(text, if \<not> debug_mode w then Some fg else None)]\<rparr>"

definition track :: "cli_event \<Rightarrow> world \<Rightarrow> world" where
  "track event w = w\<lparr>tracked := tracked w @ [event]\<rparr>"

definition track_start_init :: "binding \<Rightarrow> world \<Rightarrow> world" where
  "track_start_init c w = w\<lparr>start_inits := start_inits w @ [c]\<rparr>"

definition configure_logging :: "world \<Rightarrow> world" where
  "configure_logging w = w\<lparr>logging_configured := Suc (logging_configured w)\<rparr>"

text \<open>
  \<^verbatim>\<open>OpenllmCliEvent(cmd_group=..., cmd_name=...)\<close>: the three fields the wrapper assigns
  later start unset.
\<close>

definition OpenllmCliEvent :: "string \<Rightarrow> string \<Rightarrow> cli_event" where
  "OpenllmCliEvent g c =
     \<lparr>cmd_group = g, cmd_name = c, duration_in_ms = None, error_type = None, return_code = None\<rparr>"

section \<open>SDServerCommandGroup: the three wrappers\<close>

text \<open>
  A wrapped function is a state transformer that returns a value or raises.
  \<open>common_params\<close> consumes \<^verbatim>\<open>quiet\<close> and \<^verbatim>\<open>debug\<close>.
\<close>

definition common_params ::
  "(world \<Rightarrow> (exc + 'a) \<times> world) \<Rightarrow> bool \<Rightarrow> bool \<Rightarrow> world \<Rightarrow> (exc + 'a) \<times> world" where
  "common_params f quiet debug w =
     (let w1 = (if quiet then
                  (let wq = w\<lparr>quiet_mode := True\<rparr>
                   in if debug
                      then wq\<lparr>logged := logged wq @ [[CHR 0x27] @ ''--quiet' passed; ignoring '--verbose/--debug'' @ [CHR 0x27]]\<rparr>
                      else wq)
                else if debug then w\<lparr>debug_mode := True\<rparr>
                else w)
      in f (configure_logging w1))"

text \<open>
  \<open>usage_tracking\<close>: \<^verbatim>\<open>group.name\<close> may be \<^verbatim>\<open>None\<close>, which the assertion rejects
  before the wrapped function is called. The handler \<^verbatim>\<open>except Exception\<close> takes
  only the exceptions that derive from \<^verbatim>\<open>Exception\<close>; any other propagates through
  the \<^verbatim>\<open>try\<close> statement untouched. The duration is the exact quotient; Python rounds
  it to a float. The context manager \<^verbatim>\<open>analytics.set_bentoml_tracking()\<close> around both
  branches leaves this state alone.
\<close>

definition usage_tracking ::
  "(world \<Rightarrow> (exc + 'a) \<times> world) \<Rightarrow> string option \<Rightarrow> string \<Rightarrow> bool \<Rightarrow> world
     \<Rightarrow> (exc + 'a) \<times> world" where
  "usage_tracking func group_name command_name do_not_track w =
     (if do_not_track then func w
      else
        (let start_time = now w in
         case group_name of
           None \<Rightarrow> (Inl (AssertionError ''group.name should not be None''), w)
         | Some g \<Rightarrow>
             (let event = OpenllmCliEvent g command_name in
              case func w of
                (Inr return_value, w1) \<Rightarrow>
                  (let event1 = event\<lparr>duration_in_ms := Some (of_int (now w1 - start_time) / 1000000)\<rparr>
                   in (Inr return_value, track event1 w1))
              | (Inl e, w1) \<Rightarrow>
                  (if is_Exception e then
                     (let event1 = event\<lparr>duration_in_ms := Some (of_int (now w1 - start_time) / 1000000)\<rparr>;
                          event2 = event1\<lparr>error_type := Some (class_name e)\<rparr>;
                          event3 = event2\<lparr>return_code := Some (if e = KeyboardInterrupt then 2 else 1)\<rparr>
                      in (Inl e, track event3 w1))
                   else (Inl e, w1)))))"

text \<open>
  \<^verbatim>\<open>click.style(text, fg="red")\<close> puts the ANSI colour code before the text and the
  reset code after it. \<open>py_str_name\<close> renders \<^verbatim>\<open>group.name\<close> in the f-string.
\<close>

definition click_style_red :: "string \<Rightarrow> string" where
  "click_style_red text = [CHR 0x1B] @ ''[31m'' @ text @ [CHR 0x1B] @ ''[0m''"

fun py_str_name :: "string option \<Rightarrow> string" where
  "py_str_name None = ''None''"
| "py_str_name (Some s) = s"

definition failed_message :: "string option \<Rightarrow> string \<Rightarrow> string \<Rightarrow> string" where
  "failed_message group_name command_name m =
     ''['' @ py_str_name group_name @ ''] '' @ [CHR 0x27] @ command_name @ [CHR 0x27] @ '' failed: '' @ m"

text \<open>
  \<open>exception_handling\<close>: the wrapper returns \<^verbatim>\<open>None\<close> after it has silenced a
  \<^verbatim>\<open>KeyboardInterrupt\<close>, hence the option in the result.
\<close>

fun exception_handling ::
  "(world \<Rightarrow> (exc + 'a) \<times> world) \<Rightarrow> string option \<Rightarrow> string \<Rightarrow> world \<Rightarrow> (exc + 'a option) \<times> world" where
  "exception_handling func group_name command_name w =
     (case func w of
        (Inr r, w1) \<Rightarrow> (Inr (Some r), w1)
      | (Inl (SDServerException m), w1) \<Rightarrow>
          (Inl (ClickException (click_style_red (failed_message group_name command_name m))), w1)
      | (Inl KeyboardInterrupt, w1) \<Rightarrow> (Inr None, w1)
      | (Inl e, w1) \<Rightarrow> (Inl e, w1))"

text \<open>
  \<^verbatim>\<open>SDServerCommandGroup.command\<close> stacks the three wrappers:
  \<^verbatim>\<open>exception_handling(usage_tracking(common_params(f)))\<close>.
\<close>

definition wrapped ::
  "(world \<Rightarrow> (exc + 'a) \<times> world) \<Rightarrow> string option \<Rightarrow> string \<Rightarrow> bool \<Rightarrow> bool \<Rightarrow> bool \<Rightarrow> world
     \<Rightarrow> (exc + 'a option) \<times> world" where
  "wrapped f group_name command_name quiet debug do_not_track =
     exception_handling
       (usage_tracking (common_params f quiet debug) group_name command_name do_not_track)
       group_name command_name"

section \<open>SDServerCommandGroup.get_command\<close>

text \<open>
  Modelled from the spec: \<^verbatim>\<open>resolve_alias\<close> is inherited from \<^verbatim>\<open>BentoMLCommandGroup\<close>
  (package \<^verbatim>\<open>bentoml_cli\<close>) and "performs a single-level lookup (aliases do not chain
  to other aliases)" in the map \<^verbatim>\<open>_aliases\<close> (here \<open>alias_map\<close>) that \<^verbatim>\<open>command\<close> fills.
\<close>

definition resolve_alias :: "(string \<rightharpoonup> string) \<Rightarrow> string \<Rightarrow> string" where
  "resolve_alias alias_map cname = (case alias_map cname of Some c \<Rightarrow> c | None \<Rightarrow> cname)"

text \<open>
  \<open>ctx_name\<close> is \<^verbatim>\<open>ctx.command.name\<close>, \<open>cname\<close> the argument \<^verbatim>\<open>cmd_name\<close>,
  \<open>cached_http\<close> the dictionary \<^verbatim>\<open>_cached_http\<close>, \<open>super_get_command\<close> the lookup of the
  parent class. The statement
  \<^verbatim>\<open>raise NotImplemented\<close> raises \<^verbatim>\<open>TypeError\<close>, since \<^verbatim>\<open>NotImplemented\<close> is not an
  exception.
\<close>

definition get_command ::
  "(string \<rightharpoonup> string) \<Rightarrow> (string \<rightharpoonup> 'cmd) \<Rightarrow> (string option \<Rightarrow> string \<Rightarrow> exc + 'cmd option)
     \<Rightarrow> string option \<Rightarrow> string \<Rightarrow> exc + 'cmd option" where
  "get_command alias_map cached_http super_get_command ctx_name cname =
     (let cname = resolve_alias alias_map cname in
      if ctx_name = Some ''start'' then
        (case cached_http cname of
           Some c \<Rightarrow> Inr (Some c)
         | None \<Rightarrow> Inl (BadArgumentUsage (cname @ '' is not a valid model identifier supported by OpenLLM.'')))
      else if ctx_name = Some ''start-grpc'' then
        Inl (TypeError ''exceptions must derive from BaseException'')
      else super_get_command ctx_name cname)"

section \<open>start_model_command\<close>

text \<open>
  The names bound where the handler \<^verbatim>\<open>noop\<close> runs: the locals of the enclosing
  \<^verbatim>\<open>start_model_command\<close> and the names bound at module level (imports, assignments,
  classes and functions of \<^verbatim>\<open>cli.py\<close>). Python's builtins bind no other name used
  here. Only \<^verbatim>\<open>sd_config\<close> is bound to a model configuration.
\<close>

definition module_globals :: "string list" where
  "module_globals =
     [''__name__'', ''__doc__'', ''__package__'', ''__loader__'', ''__spec__'', ''__file__'',
      ''__cached__'', ''__builtins__'', ''annotations'', ''functools'', ''inspect'', ''itertools'', ''logging'', ''os'', ''re'', ''sys'', ''time'',
      ''traceback'', ''t'', ''click'', ''cog'', ''inflection'', ''orjson'', ''psutil'',
      ''BentoMLCommandGroup'', ''opt_callback'', ''Provide'', ''inject'', ''bentoml'', ''sdserver'',
      ''BentoMLContainer'', ''__version__'', ''SDServerException'', ''DEBUG'', ''LazyLoader'',
      ''LazyType'', ''ModelEnv'', ''analytics'', ''bentoml_cattr'', ''configure_logging'',
      ''first_not_none'', ''get_debug_mode'', ''get_quiet_mode'', ''gpu_count'',
      ''is_torch_available'', ''set_debug_mode'', ''set_quiet_mode'', ''TupleStrAny'', ''torch'',
      ''logger'', ''COLUMNS'', ''_CONTEXT_SETTINGS'', ''SDSERVER_FIGLET'', ''NargsOptions'',
      ''parse_device_callback'', ''_echo'', ''output_option'', ''model_id_option'',
      ''workers_per_resource_option'', ''SDServerCommandGroup'', ''cli'', ''start_cli'',
      ''_IGNORED_OPTIONS'', ''WrappedServeFunction'', ''parse_serve_args'', ''_http_server_args'',
      ''_grpc_server_args'', ''start_model_command'', ''_cached_http'', ''_cached_grpc'', ''_start'',
      ''start'', ''download_models'']"

definition start_model_command_locals :: "string list" where
  "start_model_command_locals =
     [''model_name'', ''_context_settings'', ''_serve_grpc'', ''BentoMLContainer'', ''env'',
      ''docstring'', ''command_attrs'', ''aliases'', ''serve_decorator'', ''group'', ''available_gpu'',
      ''noop'', ''model_start'']"

definition noop_scope :: "sd_config \<Rightarrow> (string \<times> binding) list" where
  "noop_scope c =
     (''sd_config'', Config c) # map (\<lambda>n. (n, Object)) (start_model_command_locals @ module_globals)"

definition lookup_name :: "(string \<times> binding) list \<Rightarrow> string \<Rightarrow> exc + binding" where
  "lookup_name scope n =
     (case map_of scope n of
        None \<Rightarrow> Inl (NameError (''name '' @ [CHR 0x27] @ n @ [CHR 0x27] @ '' is not defined''))
      | Some b \<Rightarrow> Inr b)"

text \<open>
  The handler of the disabled command: echo, then \<^verbatim>\<open>analytics.track_start_init(llm_config)\<close>,
  then \<^verbatim>\<open>return llm_config\<close>. Each use of the name \<^verbatim>\<open>llm_config\<close> is a lookup.
\<close>

definition noop :: "sd_config \<Rightarrow> world \<Rightarrow> (exc + binding) \<times> world" where
  "noop c w =
     (let w1 = echo ''No GPU available, therefore this command is disabled'' ''red'' w in
      case lookup_name (noop_scope c) ''llm_config'' of
        Inl e \<Rightarrow> (Inl e, w1)
      | Inr arg \<Rightarrow>
          (let w2 = track_start_init arg w1 in
           case lookup_name (noop_scope c) ''llm_config'' of
             Inl e \<Rightarrow> (Inl e, w2)
           | Inr r \<Rightarrow> (Inr r, w2)))"

text \<open>
  The command that \<^verbatim>\<open>start_model_command\<close> builds: its attributes and which of the two
  handlers it registers (\<open>help_text\<close> is the attribute \<^verbatim>\<open>help\<close>). \<open>c\<close> is the result of \<^verbatim>\<open>AutoConfig.for_model\<close>,
  \<open>start_docstring\<close> comes from the model's environment, \<open>available_gpu\<close> is the result of
  \<^verbatim>\<open>gpu_count()\<close>, \<open>mname\<close> the argument \<^verbatim>\<open>model_name\<close>. The call of
  \<^verbatim>\<open>configure_logging()\<close> at the start and the registration of the command in the
  \<^verbatim>\<open>start\<close> group do not change these attributes. The test \<^verbatim>\<open>sd_config["requires_gpu"] and len(available_gpu) < 1\<close>
  evaluates \<^verbatim>\<open>len\<close> only when the first operand is true.
\<close>

datatype handler = Noop | ModelStart

record command =
  name :: string
  short_help :: string
  help_text :: string
  aliases :: "string list option"
  callback :: handler

definition start_model_command :: "sd_config \<Rightarrow> string \<Rightarrow> string \<Rightarrow> py_value \<Rightarrow> exc + command" where
  "start_model_command c start_docstring mname available_gpu =
     (let docstring = start_docstring @ [CHR 0x0A, CHR 0x08, CHR 0x0A] @ ''Available model_id(s): ''
                        @ model_ids c @ '' [default: '' @ default_id c @ '']'' @ [CHR 0x0A];
          als = (if name_type c = ''dasherize'' then [start_name c] else []);
          command_attrs = \<lparr>name = model_name c,
                           short_help = ''Start a SDServer for '' @ [CHR 0x27] @ mname @ [CHR 0x27]
                                          @ '' ('' @ [CHR 0x27] @ ''--help' for more details)'',
                           help_text = docstring,
                           aliases = (if length als > 0 then Some als else None),
                           callback = ModelStart\<rparr>;
          stub = command_attrs\<lparr>short_help := ''(Disabled because there is no GPU available)'',
                                help_text := mname @ '' is currently not available to run on your'' @ [CHR 0x0A]
                                               @ replicate 16 CHR '' ''
                                               @ ''local machine because it requires GPU for faster inference.'',
                                callback := Noop\<rparr>
      in if requires_gpu c then
           (case py_len available_gpu of
              Inl e \<Rightarrow> Inl e
            | Inr n \<Rightarrow> if n < 1 then Inr stub else Inr command_attrs)
         else Inr command_attrs)"

section \<open>model_start: the configuration options\<close>

text \<open>
  The list \<^verbatim>\<open>_bentoml_config_options_opts\<close>. \<open>server_timeout\<close> is the resolved timeout,
  \<open>workers_per_resource\<close> the text the f-string renders for the resolved float,
  \<open>device\<close> the value of the \<^verbatim>\<open>--device\<close> option after its callback. The branch
  \<^verbatim>\<open>if device:\<close> tests the truth value, then \<^verbatim>\<open>len(device)\<close> needs a sized value;
  a tuple of one element takes the \<^verbatim>\<open>else\<close> branch, which reads \<^verbatim>\<open>device[0]\<close>.
\<close>

definition runner :: "string \<Rightarrow> string" where
  "runner sname = ''runners.'' @ [CHR 0x22] @ ''sd-'' @ sname @ ''-runner'' @ [CHR 0x22]"

definition gpu_key :: "string \<Rightarrow> string" where
  "gpu_key sname = runner sname @ ''.resources.'' @ [CHR 0x22] @ ''nvidia.com/gpu'' @ [CHR 0x22]"

definition base_opts :: "sd_config \<Rightarrow> int \<Rightarrow> string \<Rightarrow> string list" where
  "base_opts c server_timeout workers_per_resource =
     [''tracing.sample_rate=1.0'',
      ''api_server.traffic.timeout='' @ py_str_int server_timeout,
      runner (start_name c) @ ''.traffic.timeout='' @ py_str_int (timeout c),
      runner (start_name c) @ ''.workers_per_resource='' @ workers_per_resource]"

definition config_options_opts :: "sd_config \<Rightarrow> int \<Rightarrow> string \<Rightarrow> py_value \<Rightarrow> exc + string list" where
  "config_options_opts c server_timeout workers_per_resource device =
     (let opts = base_opts c server_timeout workers_per_resource in
      if py_truthy device then
        (case py_len device of
           Inl e \<Rightarrow> Inl e
         | Inr n \<Rightarrow>
             if n > 1 then
               Inr (opts @ map (\<lambda>(idx, dev). gpu_key (start_name c) @ ''['' @ nat_digits idx @ '']='' @ dev)
                               (enumerate 0 (py_items device)))
             else
               Inr (opts @ [gpu_key (start_name c) @ ''=['' @ py_items device ! 0 @ '']'']))
      else Inr opts)"

text \<open>
  The string stored under \<^verbatim>\<open>BENTOML_CONFIG_OPTIONS\<close>. In
  \<^verbatim>\<open>" " if env else "" + " ".join(opts)\<close> the conditional expression binds weaker than
  \<open>+\<close>: the join belongs to the \<^verbatim>\<open>else\<close> operand.
\<close>

definition config_options_env :: "string \<Rightarrow> string list \<Rightarrow> string" where
  "config_options_env env opts = env @ (if env \<noteq> [] then '' '' else [] @ py_join '' '' opts)"

definition bentoml_config_options ::
  "(string \<rightharpoonup> string) \<Rightarrow> sd_config \<Rightarrow> int \<Rightarrow> string \<Rightarrow> py_value \<Rightarrow> exc + string" where
  "bentoml_config_options environ c server_timeout workers_per_resource device =
     (let env = (case environ ''BENTOML_CONFIG_OPTIONS'' of None \<Rightarrow> [] | Some v \<Rightarrow> v) in
      case config_options_opts c server_timeout workers_per_resource device of
        Inl e \<Rightarrow> Inl e
      | Inr opts \<Rightarrow> Inr (config_options_env env opts))"

section \<open>The behaviour the specification describes\<close>

text \<open>
  Two definitions that follow the specification's words, to compare with the code above.
  A token "begins with a recognized option prefix" when one of the prefixes is an
  initial segment of it.
\<close>

definition begins_with_prefix :: "string list \<Rightarrow> string \<Rightarrow> bool" where
  "begins_with_prefix pfxs tok = list_ex (\<lambda>p. prefix p tok) pfxs"

text \<open>
  One device token, as the specification reads it: a token equal to the literal comma is
  skipped; a token containing a comma is split on commas and its non-empty parts are
  kept; any other token is split on whitespace and its non-empty parts are kept.
\<close>

definition device_token_parts :: "string \<Rightarrow> string list" where
  "device_token_parts v =
     (if v = '','' then []
      else if CHR '','' \<in> set v then filter (\<lambda>x. x \<noteq> []) (split_on (\<lambda>c. c = CHR '','') [] v)
      else filter (\<lambda>x. x \<noteq> []) (split_on is_space [] v))"

text \<open>
  Modelled from the spec: \<^verbatim>\<open>gpu_count\<close> is defined in \<^verbatim>\<open>sdserver/utils\<close>, which is not
  among the sources; only its callers in \<^verbatim>\<open>cli.py\<close> are. The specification has it report
  "the count of available resource units as reported by a platform-resource collaborator
  (e.g., total accelerator count) -- NOT a list of identifiers, a bare count". \<open>n\<close> is the
  number of units the platform has.
\<close>

definition gpu_count :: "nat \<Rightarrow> py_value" where
  "gpu_count n = PyInt (int n)"

text \<open>A model configuration and a process state to evaluate the definitions on.\<close>

definition sample_config :: sd_config where
  "sample_config =
     \<lparr>model_name = ''opt'', start_name = ''opt'', name_type = ''lowercase'', requires_gpu = True,
      timeout = 3600, model_ids = ''['facebook/opt-125m']'', default_id = ''facebook/opt-125m''\<rparr>"

definition sample_world :: world where
  "sample_world =
     \<lparr>now = 0, quiet_mode = False, debug_mode = False, logging_configured = 0, logged = [],
      echoed = [], tracked = [], start_inits = [], launched = []\<rparr>"

section \<open>NargsOptions: arity check and greedy collection\<close>

text \<open>
  C10. Constructing the option with an arity other than \<open>-1\<close> raises the configuration
  error, whose message names the offending arity, whatever the parent constructor would
  do (it is not reached). With \<^verbatim>\<open>nargs\<close> absent or \<open>-1\<close> the arity check raises nothing:
  the option is built from the parent constructor's result, and an error can only be the
  parent constructor's own.
\<close>

theorem NargsOptions_init_arity:
  "(v \<noteq> AInt (- 1) \<longrightarrow>
      NargsOptions_init super_init (attrs(''nargs'' \<mapsto> v))
        = Inl (SDServerException ([CHR 0x27] @ ''nargs' is set, and must be -1 instead of '' @ py_str_attr v)))
   \<and> (attrs ''nargs'' = None \<or> attrs ''nargs'' = Some (AInt (- 1)) \<longrightarrow>
        (\<forall>b. super_init (attrs(''nargs'' := None)) = Inr b \<longrightarrow>
           NargsOptions_init super_init attrs
             = Inr \<lparr>base = b, prev_parser_process_set = False, nargs_parser_set = False\<rparr>)
        \<and> (\<forall>e. NargsOptions_init super_init attrs = Inl e \<longrightarrow>
               super_init (attrs(''nargs'' := None)) = Inl e))"
  by (auto simp: NargsOptions_init_def Let_def split: sum.splits option.splits)

theorem NargsOptions_init_arity_witness:
  "NargsOptions_init (\<lambda>a. Inr (0::nat)) [''nargs'' \<mapsto> AInt 2]
      = Inl (SDServerException ([CHR 0x27] @ ''nargs' is set, and must be -1 instead of 2''))
   \<and> NargsOptions_init (\<lambda>a. Inr (0::nat)) [''nargs'' \<mapsto> AInt (- 1)]
      = Inr \<lparr>base = 0, prev_parser_process_set = False, nargs_parser_set = False\<rparr>
   \<and> NargsOptions_init (\<lambda>a. Inr (0::nat)) Map.empty
      = Inr \<lparr>base = 0, prev_parser_process_set = False, nargs_parser_set = False\<rparr>"
  using NargsOptions_init_arity [of "AInt 2" "\<lambda>a. Inr (0::nat)" Map.empty]
        NargsOptions_init_arity [of "AInt 2" "\<lambda>a. Inr (0::nat)" "[''nargs'' \<mapsto> AInt (- 1)]"]
  by (simp add: py_str_int_def)

declare nargs_while.simps [simp del]

lemma for_prefixes_eq: "for_prefixes ps tok d = (d \<or> begins_with_prefix ps tok)"
  by (induction ps arbitrary: d) (auto simp: begins_with_prefix_def)

lemma nargs_while_done: "nargs_while pfxs True v rargs = (v, rargs)"
  by (simp add: nargs_while.simps)

lemma nargs_while_eq:
  "nargs_while pfxs False v rargs =
     (v @ takeWhile (\<lambda>t. \<not> begins_with_prefix pfxs t) rargs,
      dropWhile (\<lambda>t. \<not> begins_with_prefix pfxs t) rargs)"
proof (induction rargs arbitrary: v)
  case Nil
  show ?case by (simp add: nargs_while.simps)
next
  case (Cons r rs)
  show ?case
  proof (cases "begins_with_prefix pfxs r")
    case True
    then show ?thesis
      by (subst nargs_while.simps) (simp add: for_prefixes_eq nargs_while_done)
  next
    case False
    then show ?thesis
      by (subst nargs_while.simps) (simp add: for_prefixes_eq Cons.IH)
  qed
qed

text \<open>
  C7. When the variadic option is recognized with current token \<open>v\<close> and remaining tokens
  \<open>rargs\<close>, the hook delivers \<open>v\<close> followed by the longest initial run of \<open>rargs\<close> whose tokens
  begin with no option prefix, in order, and leaves the rest, from the first token that
  begins with a prefix, in the stream. When no remaining token begins with a prefix, the
  whole stream is consumed.
\<close>

theorem nargs_parser_greedy:
  "nargs_parser pfxs v rargs =
     (v # takeWhile (\<lambda>t. \<not> begins_with_prefix pfxs t) rargs,
      dropWhile (\<lambda>t. \<not> begins_with_prefix pfxs t) rargs)
   \<and> ((\<forall>t \<in> set rargs. \<not> begins_with_prefix pfxs t) \<longrightarrow> nargs_parser pfxs v rargs = (v # rargs, []))"
  by (simp add: nargs_parser_def nargs_while_eq)

theorem nargs_parser_greedy_witness:
  "nargs_parser [''-'', ''--''] ''0'' [''1'', ''2'', ''--fast'', ''3'']
     = ([''0'', ''1'', ''2''], [''--fast'', ''3''])
   \<and> nargs_parser [''-'', ''--''] ''0'' [''1'', ''2''] = ([''0'', ''1'', ''2''], [])"
  using nargs_parser_greedy [of "[''-'', ''--'']" "''0''" "[''1'', ''2'', ''--fast'', ''3'']"]
        nargs_parser_greedy [of "[''-'', ''--'']" "''0''" "[''1'', ''2'']"]
  by (simp add: begins_with_prefix_def)

section \<open>parse_device_callback\<close>

lemma parse_tokens_eq:
  "filter (\<lambda>x. x \<noteq> []) (parse_tokens acc vs) =
     filter (\<lambda>x. x \<noteq> []) acc @ concat (map device_token_parts vs)"
  by (induction vs arbitrary: acc)
     (simp_all add: device_token_parts_def py_split_comma_def py_split_def)

lemma sentinel_iff: "(length v = 1 \<and> v ! 0 = ''all'') = (v = [''all''])"
  by (cases v) auto

lemma device_token_parts_nonempty: "[] \<notin> set (device_token_parts v)"
  by (simp add: device_token_parts_def)

text \<open>
  What the callers in \<^verbatim>\<open>cli.py\<close> do with an integer: the command builder applies
  \<^verbatim>\<open>len\<close> to the report of \<^verbatim>\<open>gpu_count()\<close> when the model requires a GPU, and
  \<^verbatim>\<open>model_start\<close> applies it to a device value that is true; both raise \<^verbatim>\<open>TypeError\<close>
  on an integer.
\<close>

lemma start_model_command_count:
  "requires_gpu c \<Longrightarrow>
   start_model_command c d m (PyInt n) = Inl (TypeError ''object of type 'int' has no len()'')"
  by (simp add: start_model_command_def Let_def)

lemma config_options_opts_count:
  "n \<noteq> 0 \<Longrightarrow>
   config_options_opts c st wpr (PyInt n) = Inl (TypeError ''object of type 'int' has no len()'')"
  by (simp add: config_options_opts_def Let_def)



text \<open>
  C8. For every tuple other than the sentinel \<^verbatim>\<open>("all",)\<close> the parser returns, in order,
  the parts of each token as the specification describes them (\<open>device_token_parts\<close>); no
  part is empty. The tuple \<^verbatim>\<open>(",",)\<close> yields the empty tuple and \<^verbatim>\<open>("0,1", "2")\<close> yields
  \<^verbatim>\<open>("0", "1", "2")\<close>.
\<close>

theorem parse_device_callback_tokens:
  "(v \<noteq> [''all''] \<longrightarrow>
      parse_device_callback g p (PyTuple v) = Inr (PyTuple (concat (map device_token_parts v))))
   \<and> [] \<notin> set (concat (map device_token_parts v))
   \<and> parse_device_callback g p (PyTuple ['','']) = Inr (PyTuple [])
   \<and> parse_device_callback g p (PyTuple [''0,1'', ''2'']) = Inr (PyTuple [''0'', ''1'', ''2''])"
proof -
  have a: "v \<noteq> [''all''] \<longrightarrow>
      parse_device_callback g p (PyTuple v) = Inr (PyTuple (concat (map device_token_parts v)))"
    using sentinel_iff [of v] by (simp add: parse_tokens_eq)
  have b: "[] \<notin> set (concat (map device_token_parts v))"
    using device_token_parts_nonempty by auto
  have c: "parse_device_callback g p (PyTuple ['','']) = Inr (PyTuple [])"
    by simp
  have d: "parse_device_callback g p (PyTuple [''0,1'', ''2'']) = Inr (PyTuple [''0'', ''1'', ''2''])"
    by (simp add: py_split_comma_def py_split_def is_space_def)
  from a b c d show ?thesis by blast
qed

theorem parse_device_callback_tokens_witness:
  "parse_device_callback (PyTuple [''7'']) ''device'' (PyTuple [''0, 1'', '','', ''2  3'', ''all''])
     = Inr (PyTuple [''0'', '' 1'', ''2'', ''3'', ''all''])"
  using parse_device_callback_tokens
          [of "[''0, 1'', '','', ''2  3'', ''all'']" "PyTuple [''7'']" "''device''"]
  by (simp add: device_token_parts_def is_space_def)

section \<open>model_start: configuration options\<close>

text \<open>
  C9. With a device tuple of exactly one identifier, one fragment follows the four base
  options: the bracketed identifier at the unindexed resource key. With two or more
  identifiers there is one fragment per identifier, in order, each at the key indexed by
  the identifier's zero-based position.
\<close>

theorem config_options_opts_device:
  "(config_options_opts c st wpr (PyTuple [d])
      = Inr (base_opts c st wpr @ [gpu_key (start_name c) @ ''=['' @ d @ '']'']))
   \<and> (length device \<ge> 2 \<longrightarrow>
        (\<exists>frags. config_options_opts c st wpr (PyTuple device) = Inr (base_opts c st wpr @ frags)
           \<and> length frags = length device
           \<and> (\<forall>i < length device.
                 frags ! i = gpu_key (start_name c) @ ''['' @ nat_digits i @ '']='' @ device ! i)))"
proof -
  have one: "config_options_opts c st wpr (PyTuple [d])
      = Inr (base_opts c st wpr @ [gpu_key (start_name c) @ ''=['' @ d @ '']''])"
    by (simp add: config_options_opts_def Let_def)
  have many: "\<exists>frags. config_options_opts c st wpr (PyTuple device) = Inr (base_opts c st wpr @ frags)
           \<and> length frags = length device
           \<and> (\<forall>i < length device.
                 frags ! i = gpu_key (start_name c) @ ''['' @ nat_digits i @ '']='' @ device ! i)"
    if "length device \<ge> 2"
  proof -
    let ?frags = "map (\<lambda>(idx, dev). gpu_key (start_name c) @ ''['' @ nat_digits idx @ '']='' @ dev)
                        (enumerate 0 device)"
    from that have ne: "device \<noteq> []" and gt: "length device > 1" by auto
    have "config_options_opts c st wpr (PyTuple device) = Inr (base_opts c st wpr @ ?frags)"
      using ne gt by (simp add: config_options_opts_def Let_def)
    moreover have "length ?frags = length device" by simp
    moreover have "\<forall>i < length device.
        ?frags ! i = gpu_key (start_name c) @ ''['' @ nat_digits i @ '']='' @ device ! i"
      by (simp add: nth_enumerate_eq)
    ultimately show ?thesis by blast
  qed
  from one many show ?thesis by blast
qed

theorem config_options_opts_device_witness:
  "config_options_opts sample_config 30 ''1.0'' (PyTuple [''0'', ''1''])
     = Inr (base_opts sample_config 30 ''1.0''
            @ [gpu_key ''opt'' @ ''[0]=0'', gpu_key ''opt'' @ ''[1]=1''])
   \<and> config_options_opts sample_config 30 ''1.0'' (PyTuple [''3''])
     = Inr (base_opts sample_config 30 ''1.0'' @ [gpu_key ''opt'' @ ''=[3]''])"
  using config_options_opts_device [of sample_config 30 "''1.0''" "''3''" "[''0'', ''1'']"]
  by (simp add: config_options_opts_def Let_def sample_config_def enumerate_eq_zip upt_rec)

lemma config_options_env_eq:
  "config_options_env env opts = (if env \<noteq> [] then env @ '' '' else py_join '' '' opts)"
  by (simp add: config_options_env_def)

lemma bentoml_config_options_empty:
  "environ ''BENTOML_CONFIG_OPTIONS'' = None \<or> environ ''BENTOML_CONFIG_OPTIONS'' = Some [] \<Longrightarrow>
   config_options_opts c st wpr device = Inr opts \<Longrightarrow>
   bentoml_config_options environ c st wpr device = Inr (py_join '' '' opts)"
  by (auto simp: bentoml_config_options_def config_options_env_def)

text \<open>
  C1. The code at an environment where \<^verbatim>\<open>BENTOML_CONFIG_OPTIONS\<close> is already set: the
  stored string is the old value and one space. Every generated fragment is dropped, where
  the claim has the old value, a space and the joined fragments.
\<close>

theorem bentoml_config_options_drops_fragments:
  "bentoml_config_options [''BENTOML_CONFIG_OPTIONS'' \<mapsto> ''api_server.workers=1'']
       sample_config 30 ''1.0'' PyNone
     = Inr ''api_server.workers=1 ''
   \<and> bentoml_config_options [''BENTOML_CONFIG_OPTIONS'' \<mapsto> ''api_server.workers=1'']
       sample_config 30 ''1.0'' PyNone
     \<noteq> Inr (''api_server.workers=1'' @ '' '' @ py_join '' '' (base_opts sample_config 30 ''1.0''))"
  by (simp add: bentoml_config_options_def config_options_opts_def Let_def config_options_env_def
                base_opts_def)

section \<open>start_model_command: the disabled command\<close>

lemma llm_config_unbound: "map_of (noop_scope c) ''llm_config'' = None"
  by (simp add: noop_scope_def start_model_command_locals_def module_globals_def)

lemma start_model_command_stub:
  "requires_gpu c \<Longrightarrow> \<exists>cmd. start_model_command c d m (PyTuple []) = Inr cmd \<and> callback cmd = Noop"
  by (simp add: start_model_command_def Let_def)

text \<open>
  C3. The code for a model that requires a GPU when none is available: the command built
  is the disabled one, with handler \<^verbatim>\<open>noop\<close>. The handler echoes the diagnostic and
  starts no server, but it does not return the configuration: the name \<^verbatim>\<open>llm_config\<close>
  is bound nowhere (the configuration is \<^verbatim>\<open>sd_config\<close>), so its first use raises
  \<^verbatim>\<open>NameError\<close>.
\<close>

theorem noop_raises_NameError:
  "map_sum id callback (start_model_command sample_config d m (PyTuple [])) = Inr Noop
   \<and> noop c w
        = (Inl (NameError (''name '' @ [CHR 0x27] @ ''llm_config'' @ [CHR 0x27] @ '' is not defined'')),
           echo ''No GPU available, therefore this command is disabled'' ''red'' w)
   \<and> launched (snd (noop c w)) = launched w
   \<and> start_inits (snd (noop c w)) = start_inits w"
  by (simp add: noop_def lookup_name_def llm_config_unbound echo_def
                start_model_command_def Let_def sample_config_def)

section \<open>SDServerCommandGroup.get_command\<close>

text \<open>
  C4, as amended. The name is first resolved through the alias map. In the \<^verbatim>\<open>start\<close>
  context the cached command of the resolved name is returned, and a missing one raises
  the bad-argument-usage error naming the resolved identifier. In the \<^verbatim>\<open>start-grpc\<close>
  context the lookup raises, whatever the parent group knows. In every other context the
  result is the parent group's lookup of the resolved name.
\<close>

theorem get_command_cases:
  "(ctx_name = Some ''start'' \<longrightarrow>
      (\<forall>cmd. cached_http (resolve_alias al n) = Some cmd \<longrightarrow>
          get_command al cached_http parent ctx_name n = Inr (Some cmd))
      \<and> (cached_http (resolve_alias al n) = None \<longrightarrow>
          get_command al cached_http parent ctx_name n
            = Inl (BadArgumentUsage
                     (resolve_alias al n @ '' is not a valid model identifier supported by OpenLLM.''))))
   \<and> (ctx_name = Some ''start-grpc'' \<longrightarrow> isl (get_command al cached_http parent ctx_name n))
   \<and> (ctx_name \<noteq> Some ''start'' \<and> ctx_name \<noteq> Some ''start-grpc'' \<longrightarrow>
        get_command al cached_http parent ctx_name n = parent ctx_name (resolve_alias al n))"
  by (auto simp: get_command_def Let_def)

theorem get_command_cases_witness:
  "get_command [''sd'' \<mapsto> ''opt''] [''opt'' \<mapsto> (1::nat)] (\<lambda>ctx n. Inr None) (Some ''start'') ''sd''
     = Inr (Some 1)
   \<and> get_command [''sd'' \<mapsto> ''opt''] [''opt'' \<mapsto> (1::nat)] (\<lambda>ctx n. Inr None) (Some ''start'') ''gpt''
     = Inl (BadArgumentUsage ''gpt is not a valid model identifier supported by OpenLLM.'')
   \<and> isl (get_command [''sd'' \<mapsto> ''opt''] [''opt'' \<mapsto> (1::nat)] (\<lambda>ctx n. Inr None)
             (Some ''start-grpc'') ''sd'')
   \<and> get_command [''sd'' \<mapsto> ''opt''] [''opt'' \<mapsto> (1::nat)]
        (\<lambda>ctx n. if n = ''opt'' then Inr (Some 2) else Inr None) (Some ''sdserver'') ''sd''
     = Inr (Some 2)"
  using get_command_cases [of "Some ''start''" "[''opt'' \<mapsto> (1::nat)]" "[''sd'' \<mapsto> ''opt'']" "''sd''"
                              "\<lambda>ctx n. Inr None"]
        get_command_cases [of "Some ''start''" "[''opt'' \<mapsto> (1::nat)]" "[''sd'' \<mapsto> ''opt'']" "''gpt''"
                              "\<lambda>ctx n. Inr None"]
        get_command_cases [of "Some ''start-grpc''" "[''opt'' \<mapsto> (1::nat)]" "[''sd'' \<mapsto> ''opt'']" "''sd''"
                              "\<lambda>ctx n. Inr None"]
        get_command_cases [of "Some ''sdserver''" "[''opt'' \<mapsto> (1::nat)]" "[''sd'' \<mapsto> ''opt'']" "''sd''"
                              "\<lambda>ctx n. if n = ''opt'' then Inr (Some 2) else Inr None"]
  by (simp add: resolve_alias_def)

text \<open>
  The claim as stated fails in the \<^verbatim>\<open>start-grpc\<close> context: the parent group would return
  a command, and the lookup raises instead of deferring to it.
\<close>

theorem get_command_start_grpc:
  "get_command Map.empty Map.empty (\<lambda>ctx n. Inr (Some (1::nat))) (Some ''start-grpc'') ''opt''
     = Inl (TypeError ''exceptions must derive from BaseException'')
   \<and> get_command Map.empty Map.empty (\<lambda>ctx n. Inr (Some (1::nat))) (Some ''start-grpc'') ''opt''
     \<noteq> (\<lambda>ctx n. Inr (Some (1::nat))) (Some ''start-grpc'') ''opt''"
  by (simp add: get_command_def resolve_alias_def)

section \<open>The wrappers\<close>

lemma sublist_click_style_red: "sublist text (click_style_red text)"
  unfolding click_style_red_def sublist_def by (metis append.assoc)

text \<open>
  C5. When the wrapped function raises the domain exception with message \<open>m\<close>, the
  error-translation wrapper raises the click error, whose message contains
  \<^verbatim>\<open>[<group>] '<command>' failed: \<close> followed by \<open>m\<close>. When it raises
  \<^verbatim>\<open>KeyboardInterrupt\<close>, the wrapper returns \<^verbatim>\<open>None\<close>: nothing is raised and the state
  is the one the wrapped function left, with nothing echoed or logged by the wrapper.
\<close>

theorem exception_handling_translates:
  "(func w = (Inl (SDServerException m), w1) \<longrightarrow>
      (\<exists>msg. exception_handling func (Some g) c w = (Inl (ClickException msg), w1)
         \<and> sublist (''['' @ g @ ''] '' @ [CHR 0x27] @ c @ [CHR 0x27] @ '' failed: '' @ m) msg))
   \<and> (func w = (Inl KeyboardInterrupt, w1) \<longrightarrow>
        exception_handling func (Some g) c w = (Inr None, w1))"
proof -
  have "sublist (failed_message (Some g) c m) (click_style_red (failed_message (Some g) c m))"
    by (rule sublist_click_style_red)
  then show ?thesis
    by (auto simp: failed_message_def)
qed

theorem exception_handling_translates_witness:
  "(\<exists>msg. exception_handling (\<lambda>w. (Inl (SDServerException ''bad weight'') :: exc + nat, w))
             (Some ''start'') ''opt'' sample_world = (Inl (ClickException msg), sample_world)
       \<and> sublist ''[start] 'opt' failed: bad weight'' msg)
   \<and> exception_handling (\<lambda>w. (Inl KeyboardInterrupt :: exc + nat, w)) (Some ''start'') ''opt'' sample_world
       = (Inr None, sample_world)"
  using exception_handling_translates
          [of "\<lambda>w. (Inl (SDServerException ''bad weight'') :: exc + nat, w)" sample_world
              "''bad weight''" sample_world "''start''" "''opt''"]
        exception_handling_translates
          [of "\<lambda>w. (Inl KeyboardInterrupt :: exc + nat, w)" sample_world
              "''bad weight''" sample_world "''start''" "''opt''"]
  by simp

lemma usage_tracking_do_not_track: "usage_tracking func gn c True w = func w"
  by (simp add: usage_tracking_def)

lemma usage_tracking_Exception:
  "func w = (Inl e, w1) \<Longrightarrow> is_Exception e \<Longrightarrow>
   usage_tracking func (Some g) c False w =
     (Inl e, track \<lparr>cmd_group = g, cmd_name = c,
                    duration_in_ms = Some (of_int (now w1 - now w) / 1000000),
                    error_type = Some (class_name e), return_code = Some 1\<rparr> w1)"
  by (auto simp: usage_tracking_def Let_def OpenllmCliEvent_def)

lemma usage_tracking_success:
  "func w = (Inr r, w1) \<Longrightarrow>
   usage_tracking func (Some g) c False w =
     (Inr r, track \<lparr>cmd_group = g, cmd_name = c,
                    duration_in_ms = Some (of_int (now w1 - now w) / 1000000),
                    error_type = None, return_code = None\<rparr> w1)"
  by (simp add: usage_tracking_def Let_def OpenllmCliEvent_def)

text \<open>
  C6. The code when the wrapped function raises \<^verbatim>\<open>KeyboardInterrupt\<close> and tracking is on:
  \<^verbatim>\<open>except Exception\<close> does not take it, so the exception propagates with no event
  emitted (the tracked events are the ones the wrapped function left), where the claim has
  one event with return code 2. For exceptions that derive from \<^verbatim>\<open>Exception\<close> the event
  is emitted once with return code 1 (\<open>usage_tracking_Exception\<close>).
\<close>

theorem usage_tracking_KeyboardInterrupt:
  "usage_tracking (\<lambda>w. (Inl KeyboardInterrupt, f w)) (Some g) c False w = (Inl KeyboardInterrupt, f w)
   \<and> tracked (snd (usage_tracking (\<lambda>w. (Inl KeyboardInterrupt, f w)) (Some g) c False w))
       = tracked (f w)"
  by (simp add: usage_tracking_def Let_def)

text \<open>
  The three wrappers together, as \<^verbatim>\<open>command\<close> stacks them: a domain error surfaces as
  the click error after one event with return code 1; a user interrupt ends in a silent
  return with no event.
\<close>

lemma wrapped_SDServerException:
  "wrapped (\<lambda>w. (Inl (SDServerException m), w)) (Some g) c False False False w =
     (Inl (ClickException (click_style_red (failed_message (Some g) c m))),
      track \<lparr>cmd_group = g, cmd_name = c, duration_in_ms = Some 0,
             error_type = Some ''SDServerException'', return_code = Some 1\<rparr> (configure_logging w))"
  by (simp add: wrapped_def common_params_def usage_tracking_def Let_def OpenllmCliEvent_def
                configure_logging_def)

lemma wrapped_KeyboardInterrupt:
  "wrapped (\<lambda>w. (Inl KeyboardInterrupt, w)) (Some g) c False False False w
     = (Inr None, configure_logging w)"
  by (simp add: wrapped_def common_params_def usage_tracking_def Let_def)

end
